theory Spec2Isabelle
  imports Main
begin

section \<open>The dummy OAuth validator module\<close>

text \<open>
  The module is one C file, \<^verbatim>\<open>src/testsetup/oauth_validator_module/dummy_validator.c\<close>:
  a function \<^verbatim>\<open>validate\<close>, a constant table \<^verbatim>\<open>callbacks\<close> and the entry point
  \<^verbatim>\<open>_PG_oauth_validator_module_init\<close>. It is written against the host's headers
  (\<^verbatim>\<open>postgres.h\<close>, \<^verbatim>\<open>fmgr.h\<close>, \<^verbatim>\<open>libpq/oauth.h\<close>), which are not part of the module.
  What the module uses of the host is modelled in the first subsection, as far as the
  C text of the module determines it; the module itself follows, statement by statement.
  The line \<^verbatim>\<open>PG_MODULE_MAGIC;\<close> expands a macro of the host into declarations of the
  host's; none of the three definitions of the module refers to them.
\<close>

subsection \<open>Memory, pointers and the host's services\<close>

type_synonym addr = nat

text \<open>A C pointer: the null pointer, or the address of an object.\<close>

datatype ptr = NULL | Addr addr

text \<open>
  \<^verbatim>\<open>ValidatorModuleResult\<close> is defined by the host. The module names two of its fields:
  \<^verbatim>\<open>authn_id\<close>, assigned a \<^verbatim>\<open>char *\<close>, and \<^verbatim>\<open>authorized\<close>, assigned \<^verbatim>\<open>true\<close>. Whatever
  else the host keeps in the structure is the record's extension (\<open>more\<close>).
\<close>

record ValidatorModuleResult =
  authorized :: bool
  authn_id :: ptr

text \<open>The message levels of the host's \<^verbatim>\<open>elog\<close>; the module uses \<^verbatim>\<open>LOG\<close>.\<close>

datatype elevel = DEBUG | LOG | INFO | NOTICE | WARNING | ERROR | FATAL | PANIC

text \<open>
  The program state a call can touch, as a typed store:
  \<^item> \<open>cstrings\<close>: the C strings in memory, each under the address of its first character
    (the characters before the terminating NUL). An association list, so that the
    allocator can pick an address that is not in use.
  \<^item> \<open>state_objs\<close>: the \<^verbatim>\<open>ValidatorModuleState\<close> objects; the module never names a field
    of one, so their contents are a type parameter.
  \<^item> \<open>result_objs\<close>: the \<^verbatim>\<open>ValidatorModuleResult\<close> objects.
  \<^item> \<open>server_log\<close>: the records emitted through \<^verbatim>\<open>elog\<close>, oldest first.
\<close>

record ('s, 'r) world =
  cstrings :: "(addr \<times> string) list"
  state_objs :: "addr \<rightharpoonup> 's"
  result_objs :: "addr \<rightharpoonup> 'r ValidatorModuleResult_scheme"
  server_log :: "(elevel \<times> string) list"

text \<open>
  A C function either returns a value and leaves a new state, or it does not return:
  \<open>Segfault\<close> is a read or write through a pointer that addresses no object of the
  expected type (the null pointer among them), \<open>Raised\<close> is the host's non-local exit
  from \<^verbatim>\<open>elog\<close> at level \<^verbatim>\<open>ERROR\<close> and above.
\<close>

datatype error = Segfault | Raised elevel string

type_synonym ('a, 's, 'r) op = "('s, 'r) world \<Rightarrow> error + ('a \<times> ('s, 'r) world)"

definition ret :: "'a \<Rightarrow> ('a, 's, 'r) op" where
  "ret x w = Inr (x, w)"

text \<open>Sequencing of two statements: the second runs in the state the first leaves.\<close>

definition seq :: "('a, 's, 'r) op \<Rightarrow> ('a \<Rightarrow> ('b, 's, 'r) op) \<Rightarrow> ('b, 's, 'r) op" where
  "seq m f w = (case m w of Inl e \<Rightarrow> Inl e | Inr (x, w') \<Rightarrow> f x w')"

fun load_str :: "ptr \<Rightarrow> ('s, 'r) world \<Rightarrow> string option" where
  "load_str NULL w = None"
| "load_str (Addr a) w = map_of (cstrings w) a"

fun load_result :: "ptr \<Rightarrow> ('s, 'r) world \<Rightarrow> 'r ValidatorModuleResult_scheme option" where
  "load_result NULL w = None"
| "load_result (Addr a) w = result_objs w a"

text \<open>
  An assignment \<^verbatim>\<open>p->field = v\<close> to a field of a result structure: \<open>f\<close> is the update of
  that field.
\<close>

definition update_result ::
  "ptr \<Rightarrow> ('r ValidatorModuleResult_scheme \<Rightarrow> 'r ValidatorModuleResult_scheme) \<Rightarrow> (unit, 's, 'r) op" where
  "update_result p f w =
     (case p of
        NULL \<Rightarrow> Inl Segfault
      | Addr a \<Rightarrow>
          (case result_objs w a of
             None \<Rightarrow> Inl Segfault
           | Some r \<Rightarrow> Inr ((), w\<lparr>result_objs := (result_objs w)(a \<mapsto> f r)\<rparr>)))"

text \<open>
  The format strings of \<^verbatim>\<open>elog\<close>, for the one conversion the module uses: each \<^verbatim>\<open>%s\<close>
  takes the next argument. A conversion with no argument left is undefined in C.
\<close>

fun format :: "string \<Rightarrow> string list \<Rightarrow> string option" where
  "format (c # d # fmt) args =
     (if c = CHR ''%'' \<and> d = CHR ''s'' then
        (case args of
           [] \<Rightarrow> None
         | a # as \<Rightarrow> map_option ((@) a) (format fmt as))
      else map_option ((#) c) (format (d # fmt) args))"
| "format fmt args = Some fmt"

text \<open>
  What the host's formatter prints for the argument of a \<^verbatim>\<open>%s\<close> conversion: the text
  \<^verbatim>\<open>(null)\<close> for the null pointer, which it tests for and does not dereference, and
  otherwise the string the pointer addresses.
\<close>

fun elog_arg :: "ptr \<Rightarrow> ('s, 'r) world \<Rightarrow> string option" where
  "elog_arg NULL w = Some ''(null)''"
| "elog_arg (Addr a) w = map_of (cstrings w) a"

text \<open>
  \<^verbatim>\<open>elog(level, fmt, ...)\<close>: a \<^verbatim>\<open>%s\<close> argument that is neither null nor the address of a
  string is a fault. Below \<^verbatim>\<open>ERROR\<close> the record is emitted and \<^verbatim>\<open>elog\<close> returns. Whether the
  host's configuration then writes the record to a file is the host's business.
\<close>

definition elog :: "elevel \<Rightarrow> string \<Rightarrow> ptr list \<Rightarrow> (unit, 's, 'r) op" where
  "elog lvl fmt args w =
     (case those (map (\<lambda>p. elog_arg p w) args) of
        None \<Rightarrow> Inl Segfault
      | Some strs \<Rightarrow>
          (case format fmt strs of
             None \<Rightarrow> Inl Segfault
           | Some msg \<Rightarrow>
               if lvl \<in> {ERROR, FATAL, PANIC} then Inl (Raised lvl msg)
               else Inr ((), w\<lparr>server_log := server_log w @ [(lvl, msg)]\<rparr>)))"

text \<open>An address no string lives at: one past the largest address in use.\<close>

definition fresh_addr :: "(addr \<times> 'a) list \<Rightarrow> addr" where
  "fresh_addr m = Suc (foldr max (map fst m) 0)"

text \<open>
  \<^verbatim>\<open>pstrdup(s)\<close>: reads the string at \<open>s\<close>, allocates a new chunk in the host's current
  memory context and copies the string there. The context is taken to have room for
  the copy (the host reports an exhausted context by a non-local exit of its own).
\<close>

definition pstrdup :: "ptr \<Rightarrow> (ptr, 's, 'r) op" where
  "pstrdup s w =
     (case load_str s w of
        None \<Rightarrow> Inl Segfault
      | Some cs \<Rightarrow>
          (let a = fresh_addr (cstrings w)
           in Inr (Addr a, w\<lparr>cstrings := (a, cs) # cstrings w\<rparr>)))"

subsection \<open>The module\<close>

text \<open>
  \<^verbatim>\<open>
  bool validate(const ValidatorModuleState *state, const char *token,
                const char *role, ValidatorModuleResult *result) {
    elog(LOG, "accept token '%s' for role '%s'", token, role);
    char *authn_id = pstrdup(token);
    result->authn_id = authn_id;
    result->authorized = true;
    return true;
  }
  \<close>
  The local \<^verbatim>\<open>authn_id\<close> is \<open>copy\<close> below, the field keeps the name. A string literal
  cannot end in a single quote, so the last character of the format is appended
  (\<open>CHR 0x27\<close> is the single quote).
\<close>

definition validate :: "ptr \<Rightarrow> ptr \<Rightarrow> ptr \<Rightarrow> ptr \<Rightarrow> (bool, 's, 'r) op" where
  "validate state token role result =
     seq (elog LOG (''accept token '%s' for role '%s'' @ [CHR 0x27]) [token, role]) (\<lambda>_.
     seq (pstrdup token) (\<lambda>copy.
     seq (update_result result (\<lambda>r. r\<lparr>authn_id := copy\<rparr>)) (\<lambda>_.
     seq (update_result result (\<lambda>r. r\<lparr>authorized := True\<rparr>)) (\<lambda>_.
     ret True))))"

text \<open>
  \<^verbatim>\<open>
  const OAuthValidatorCallbacks callbacks = {
      .magic = PG_OAUTH_VALIDATOR_MAGIC,
      .startup_cb = NULL,
      .shutdown_cb = NULL,
      .validate_cb = validate,
  };
  \<close>
  The structure and the macro \<^verbatim>\<open>PG_OAUTH_VALIDATOR_MAGIC\<close> are the host's: the types of
  the magic number and of the two hooks the module leaves out are type parameters, the
  value of the macro is the parameter of the table. A function pointer is \<open>None\<close> when
  it is \<^verbatim>\<open>NULL\<close> and \<open>Some f\<close> when it is the function \<open>f\<close>.
\<close>

record ('m, 'su, 'sd, 'v) OAuthValidatorCallbacks =
  magic :: 'm
  startup_cb :: "'su option"
  shutdown_cb :: "'sd option"
  validate_cb :: "'v option"

type_synonym ('s, 'r) ValidatorValidateCB = "ptr \<Rightarrow> ptr \<Rightarrow> ptr \<Rightarrow> ptr \<Rightarrow> (bool, 's, 'r) op"

definition callbacks ::
  "'m \<Rightarrow> ('m, 'su, 'sd, ('s, 'r) ValidatorValidateCB) OAuthValidatorCallbacks" where
  "callbacks PG_OAUTH_VALIDATOR_MAGIC =
     \<lparr>magic = PG_OAUTH_VALIDATOR_MAGIC,
      startup_cb = None,
      shutdown_cb = None,
      validate_cb = Some validate\<rparr>"

text \<open>
  A pointer to an object with static storage is the address of a named object of the
  module: \<^verbatim>\<open>&callbacks\<close> is \<open>AddrOf ''callbacks''\<close>. \<open>static_objs\<close> is what the loaded module
  holds under each name. The table is declared \<^verbatim>\<open>const\<close> and is no part of the state
  that calls change.
\<close>

datatype static_ptr = NULL_static | AddrOf string

definition static_objs ::
  "'m \<Rightarrow> static_ptr \<Rightarrow> ('m, 'su, 'sd, ('s, 'r) ValidatorValidateCB) OAuthValidatorCallbacks option" where
  "static_objs PG_OAUTH_VALIDATOR_MAGIC p =
     (if p = AddrOf ''callbacks'' then Some (callbacks PG_OAUTH_VALIDATOR_MAGIC) else None)"

text \<open>
  \<^verbatim>\<open>
  const OAuthValidatorCallbacks *_PG_oauth_validator_module_init() {
    return &callbacks;
  }
  \<close>
  (An Isabelle name cannot start with an underscore.)
\<close>

definition PG_oauth_validator_module_init :: "(static_ptr, 's, 'r) op" where
  "PG_oauth_validator_module_init = ret (AddrOf ''callbacks'')"

subsection \<open>Calls, and a concrete one\<close>

text \<open>
  The host calls \<^verbatim>\<open>validate\<close> with three pointers it reads or writes through. A call is
  valid when each of them addresses an object of its type: \<open>token\<close> and \<open>role\<close> a string,
  \<open>result\<close> a result structure. Nothing is asked of \<open>state\<close>.
\<close>

definition valid_call :: "('s, 'r) world \<Rightarrow> ptr \<Rightarrow> ptr \<Rightarrow> ptr \<Rightarrow> bool" where
  "valid_call w token role result =
     (load_str token w \<noteq> None \<and> load_str role w \<noteq> None \<and> load_result result w \<noteq> None)"

text \<open>
  What \<^verbatim>\<open>validate\<close> needs of its pointers to run through: as a valid call, but the role
  may also be null, since the role is only handed to \<^verbatim>\<open>elog\<close>.
\<close>

definition safe_call :: "('s, 'r) world \<Rightarrow> ptr \<Rightarrow> ptr \<Rightarrow> ptr \<Rightarrow> bool" where
  "safe_call w token role result =
     (load_str token w \<noteq> None \<and> elog_arg role w \<noteq> None \<and> load_result result w \<noteq> None)"

text \<open>The text of the format with the two conversions filled in.\<close>

definition accept_msg :: "string \<Rightarrow> string \<Rightarrow> string" where
  "accept_msg tok rol =
     ''accept token '' @ [CHR 0x27] @ tok @ [CHR 0x27] @
     '' for role '' @ [CHR 0x27] @ rol @ [CHR 0x27]"

text \<open>
  A state to run the module in: the token \<^verbatim>\<open>"tok"\<close> at address 1, the role \<^verbatim>\<open>"alice"\<close> at
  address 2, a state object at 5, a zeroed result structure at 7 and an empty log; the
  state that \<^verbatim>\<open>validate(5, 1, 2, 7)\<close> leaves; and the state that the same call with a null
  role leaves.
\<close>

definition example_world :: "(unit, unit) world" where
  "example_world =
     \<lparr>cstrings = [(1, ''tok''), (2, ''alice'')],
      state_objs = [5 \<mapsto> ()],
      result_objs = [7 \<mapsto> \<lparr>authorized = False, authn_id = NULL\<rparr>],
      server_log = []\<rparr>"

definition example_world_after :: "(unit, unit) world" where
  "example_world_after =
     \<lparr>cstrings = [(3, ''tok''), (1, ''tok''), (2, ''alice'')],
      state_objs = [5 \<mapsto> ()],
      result_objs = [7 \<mapsto> \<lparr>authorized = True, authn_id = Addr 3\<rparr>],
      server_log = [(LOG, ''accept token 'tok' for role 'alice'' @ [CHR 0x27])]\<rparr>"

definition example_world_after_null_role :: "(unit, unit) world" where
  "example_world_after_null_role =
     \<lparr>cstrings = [(3, ''tok''), (1, ''tok''), (2, ''alice'')],
      state_objs = [5 \<mapsto> ()],
      result_objs = [7 \<mapsto> \<lparr>authorized = True, authn_id = Addr 3\<rparr>],
      server_log = [(LOG, ''accept token 'tok' for role '(null)'' @ [CHR 0x27])]\<rparr>"

section \<open>Properties\<close>

subsection \<open>Auxiliary facts\<close>

lemma format_accept:
  "format (''accept token '%s' for role '%s'' @ [CHR 0x27]) [tok, rol] = Some (accept_msg tok rol)"
  by (simp add: accept_msg_def)

lemma foldr_max_upper: "a \<in> set xs \<Longrightarrow> a \<le> foldr max xs (0::nat)"
  by (induction xs) auto

lemma fresh_addr_unused: "map_of m (fresh_addr m) = None"
proof -
  have "fresh_addr m \<notin> set (map fst m)"
    using foldr_max_upper [of "fresh_addr m" "map fst m"] by (auto simp: fresh_addr_def)
  then show ?thesis by (simp add: map_of_eq_None_iff)
qed

lemma load_str_frame:
  "load_str p (w\<lparr>server_log := l\<rparr>) = load_str p w"
  "load_str p (w\<lparr>state_objs := S\<rparr>) = load_str p w"
  "load_str p (w\<lparr>result_objs := R\<rparr>) = load_str p w"
  by (cases p; simp)+

lemma load_result_frame:
  "load_result p (w\<lparr>server_log := l\<rparr>) = load_result p w"
  "load_result p (w\<lparr>state_objs := S\<rparr>) = load_result p w"
  "load_result p (w\<lparr>cstrings := C\<rparr>) = load_result p w"
  by (cases p; simp)+

lemma elog_arg_load_str: "load_str p w = Some s \<Longrightarrow> elog_arg p w = Some s"
  by (cases p) simp_all

lemma elog_arg_frame: "elog_arg p (w\<lparr>state_objs := S\<rparr>) = elog_arg p w"
  by (cases p) simp_all

lemma elog_LOG_run:
  assumes "elog_arg token w = Some tok" and "elog_arg role w = Some rol"
  shows "elog LOG (''accept token '%s' for role '%s'' @ [CHR 0x27]) [token, role] w =
           Inr ((), w\<lparr>server_log := server_log w @ [(LOG, accept_msg tok rol)]\<rparr>)"
  using assms format_accept [of tok rol] by (simp add: elog_def del: format.simps)

text \<open>The one path through \<^verbatim>\<open>validate\<close>, when no statement faults.\<close>

lemma validate_run:
  assumes "load_str token w = Some tok" and "elog_arg role w = Some rol"
    and "result_objs w ra = Some r"
  shows "validate state token role (Addr ra) w =
           Inr (True, w\<lparr>server_log := server_log w @ [(LOG, accept_msg tok rol)],
                        cstrings := (fresh_addr (cstrings w), tok) # cstrings w,
                        result_objs := (result_objs w)(ra \<mapsto>
                           r\<lparr>authn_id := Addr (fresh_addr (cstrings w)), authorized := True\<rparr>)\<rparr>)"
proof -
  obtain ta where ta: "token = Addr ta" using assms(1) by (cases token) simp_all
  show ?thesis
    using assms elog_LOG_run [OF elog_arg_load_str [OF assms(1)] assms(2)]
    by (simp add: validate_def seq_def pstrdup_def update_result_def ret_def Let_def ta)
qed

lemma safe_call_run:
  assumes "safe_call w token role result"
  obtains tok rol ra r where
    "load_str token w = Some tok" and "elog_arg role w = Some rol"
    and "result = Addr ra" and "result_objs w ra = Some r"
    and "validate state token role result w =
           Inr (True, w\<lparr>server_log := server_log w @ [(LOG, accept_msg tok rol)],
                        cstrings := (fresh_addr (cstrings w), tok) # cstrings w,
                        result_objs := (result_objs w)(ra \<mapsto>
                           r\<lparr>authn_id := Addr (fresh_addr (cstrings w)), authorized := True\<rparr>)\<rparr>)"
proof -
  from assms obtain tok rol r where
    l: "load_str token w = Some tok" "elog_arg role w = Some rol" "load_result result w = Some r"
    by (auto simp: safe_call_def)
  from l(3) obtain ra where ra: "result = Addr ra" "result_objs w ra = Some r"
    by (cases result) simp_all
  show thesis
    using that [OF l(1,2) ra] validate_run [OF l(1,2) ra(2)] ra(1) by simp
qed

lemma valid_call_safe: "valid_call w token role result \<Longrightarrow> safe_call w token role result"
  by (auto simp: valid_call_def safe_call_def elog_arg_load_str)

lemma valid_call_run:
  assumes "valid_call w token role result"
  obtains tok rol ra r where
    "load_str token w = Some tok" and "load_str role w = Some rol"
    and "result = Addr ra" and "result_objs w ra = Some r"
    and "validate state token role result w =
           Inr (True, w\<lparr>server_log := server_log w @ [(LOG, accept_msg tok rol)],
                        cstrings := (fresh_addr (cstrings w), tok) # cstrings w,
                        result_objs := (result_objs w)(ra \<mapsto>
                           r\<lparr>authn_id := Addr (fresh_addr (cstrings w)), authorized := True\<rparr>)\<rparr>)"
proof -
  from assms obtain tok rol r where
    l: "load_str token w = Some tok" "load_str role w = Some rol" "load_result result w = Some r"
    by (auto simp: valid_call_def)
  from l(3) obtain ra where ra: "result = Addr ra" "result_objs w ra = Some r"
    by (cases result) simp_all
  show thesis
    using that [OF l(1,2) ra] validate_run [OF l(1) elog_arg_load_str [OF l(2)] ra(2)] ra(1)
    by simp
qed

text \<open>Every other call faults: at \<^verbatim>\<open>elog\<close>, at \<^verbatim>\<open>pstrdup\<close> or at the first assignment.\<close>

lemma validate_fault:
  assumes "\<not> safe_call w token role result"
  shows "validate state token role result w = Inl Segfault"
proof (cases "elog_arg token w")
  case None
  then show ?thesis by (simp add: validate_def seq_def elog_def)
next
  case targ: (Some targ)
  show ?thesis
  proof (cases "elog_arg role w")
    case None
    then show ?thesis using targ by (simp add: validate_def seq_def elog_def)
  next
    case rol: (Some rol)
    note logged = elog_LOG_run [OF targ rol]
    show ?thesis
    proof (cases "load_str token w")
      case None
      then show ?thesis
        using logged by (simp add: validate_def seq_def pstrdup_def load_str_frame)
    next
      case tok: (Some tok)
      with rol assms have res: "load_result result w = None" by (simp add: safe_call_def)
      show ?thesis
      proof (cases result)
        case NULL
        then show ?thesis
          using logged tok
          by (simp add: validate_def seq_def pstrdup_def update_result_def Let_def load_str_frame)
      next
        case (Addr ra)
        then show ?thesis
          using logged tok res
          by (simp add: validate_def seq_def pstrdup_def update_result_def Let_def load_str_frame)
      qed
    qed
  qed
qed

lemma example_valid_call: "valid_call example_world (Addr 1) (Addr 2) (Addr 7)"
  by (simp add: valid_call_def example_world_def)

lemma example_run:
  "validate (Addr 5) (Addr 1) (Addr 2) (Addr 7) example_world = Inr (True, example_world_after)"
proof -
  have f: "fresh_addr (cstrings example_world) = 3"
    by (simp add: fresh_addr_def example_world_def)
  have "validate (Addr 5) (Addr 1) (Addr 2) (Addr 7) example_world =
          Inr (True, example_world\<lparr>server_log := server_log example_world @ [(LOG, accept_msg ''tok'' ''alice'')],
                 cstrings := (fresh_addr (cstrings example_world), ''tok'') # cstrings example_world,
                 result_objs := (result_objs example_world)(7 \<mapsto>
                   \<lparr>authorized = False, authn_id = NULL\<rparr>
                     \<lparr>authn_id := Addr (fresh_addr (cstrings example_world)), authorized := True\<rparr>)\<rparr>)"
    by (rule validate_run) (simp_all add: example_world_def)
  then show ?thesis
    unfolding f by (simp add: example_world_def example_world_after_def accept_msg_def)
qed

lemma example_run_null_role:
  "validate (Addr 5) (Addr 1) NULL (Addr 7) example_world =
     Inr (True, example_world_after_null_role)"
proof -
  have f: "fresh_addr (cstrings example_world) = 3"
    by (simp add: fresh_addr_def example_world_def)
  have "validate (Addr 5) (Addr 1) NULL (Addr 7) example_world =
          Inr (True, example_world\<lparr>server_log := server_log example_world @ [(LOG, accept_msg ''tok'' ''(null)'')],
                 cstrings := (fresh_addr (cstrings example_world), ''tok'') # cstrings example_world,
                 result_objs := (result_objs example_world)(7 \<mapsto>
                   \<lparr>authorized = False, authn_id = NULL\<rparr>
                     \<lparr>authn_id := Addr (fresh_addr (cstrings example_world)), authorized := True\<rparr>)\<rparr>)"
    by (rule validate_run) (simp_all add: example_world_def)
  then show ?thesis
    unfolding f
    by (simp add: example_world_def example_world_after_null_role_def accept_msg_def)
qed

subsection \<open>C1: validate reports success\<close>

text \<open>
  C1. For every token and role, whatever the two strings contain, \<^verbatim>\<open>validate\<close> returns
  \<^verbatim>\<open>true\<close>: every valid call returns, and returns \<open>True\<close>; and no call at all, valid or
  not, returns \<open>False\<close>.
\<close>

theorem validate_always_succeeds:
  "(valid_call w token role result \<longrightarrow>
      (\<exists>w'. validate state token role result w = Inr (True, w')))
   \<and> (\<forall>w'. validate state token role result w \<noteq> Inr (False, w'))"
proof (cases "safe_call w token role result")
  case True
  then show ?thesis by (rule safe_call_run [where state = state]) simp
next
  case False
  then have "validate state token role result w = Inl Segfault"
    and "\<not> valid_call w token role result"
    using valid_call_safe by (auto simp: validate_fault)
  then show ?thesis by simp
qed

text \<open>The call of the example is valid, and returns \<open>True\<close>.\<close>

theorem validate_always_succeeds_witness:
  "valid_call example_world (Addr 1) (Addr 2) (Addr 7)
   \<and> (\<exists>w'. validate (Addr 5) (Addr 1) (Addr 2) (Addr 7) example_world = Inr (True, w'))"
  using validate_always_succeeds [of example_world "Addr 1" "Addr 2" "Addr 7" "Addr 5"]
    example_valid_call
  by simp

subsection \<open>C2: the copy of the token\<close>

text \<open>
  C2. After a valid call (the token, in particular, is not null) the \<^verbatim>\<open>authn_id\<close> field of
  the result structure holds the address \<open>a\<close> of a string with the characters of the
  token. The address is not the token's and no string lived there before the call, so
  the string is a new one and not an alias. It is the only string the call adds: memory
  holds the strings it held, with the token among them unchanged, and this one. When
  \<^verbatim>\<open>validate\<close> returns, the copy is still allocated and the result structure, which is the
  caller's, holds its address: it is the caller's to keep or free.
\<close>

theorem validate_authn_id_is_copy:
  assumes "valid_call w token role result"
  shows "\<exists>w' tok a r'.
           load_str token w = Some tok
         \<and> validate state token role result w = Inr (True, w')
         \<and> load_result result w' = Some r'
         \<and> authn_id r' = Addr a
         \<and> load_str (Addr a) w' = Some tok
         \<and> Addr a \<noteq> token
         \<and> map_of (cstrings w) a = None
         \<and> cstrings w' = (a, tok) # cstrings w
         \<and> load_str token w' = Some tok"
proof -
  from assms obtain tok rol ra r where
    tok: "load_str token w = Some tok" and res: "result = Addr ra"
    and run: "validate state token role result w =
           Inr (True, w\<lparr>server_log := server_log w @ [(LOG, accept_msg tok rol)],
                        cstrings := (fresh_addr (cstrings w), tok) # cstrings w,
                        result_objs := (result_objs w)(ra \<mapsto>
                           r\<lparr>authn_id := Addr (fresh_addr (cstrings w)), authorized := True\<rparr>)\<rparr>)"
    by (rule valid_call_run [where state = state])
  let ?a = "fresh_addr (cstrings w)"
  have fresh: "map_of (cstrings w) ?a = None" by (rule fresh_addr_unused)
  obtain ta where ta: "token = Addr ta" "map_of (cstrings w) ta = Some tok"
    using tok by (cases token) simp_all
  have ne: "ta \<noteq> ?a" using ta(2) fresh by auto
  show ?thesis
    apply (rule exI [where x = "w\<lparr>server_log := server_log w @ [(LOG, accept_msg tok rol)],
                        cstrings := (?a, tok) # cstrings w,
                        result_objs := (result_objs w)(ra \<mapsto>
                           r\<lparr>authn_id := Addr ?a, authorized := True\<rparr>)\<rparr>"])
    apply (rule exI [where x = tok])
    apply (rule exI [where x = ?a])
    apply (rule exI [where x = "r\<lparr>authn_id := Addr ?a, authorized := True\<rparr>"])
    using tok run fresh ne by (simp add: res ta)
qed

theorem validate_authn_id_is_copy_witness:
  "valid_call example_world (Addr 1) (Addr 2) (Addr 7)
   \<and> (\<exists>w' tok a r'.
           load_str (Addr 1) example_world = Some tok
         \<and> validate (Addr 5) (Addr 1) (Addr 2) (Addr 7) example_world = Inr (True, w')
         \<and> load_result (Addr 7) w' = Some r'
         \<and> authn_id r' = Addr a
         \<and> load_str (Addr a) w' = Some tok
         \<and> Addr a \<noteq> Addr 1
         \<and> map_of (cstrings example_world) a = None
         \<and> cstrings w' = (a, tok) # cstrings example_world
         \<and> load_str (Addr 1) w' = Some tok)"
  using validate_authn_id_is_copy [OF example_valid_call, of "Addr 5"] example_valid_call
  by blast

subsection \<open>C3: authorized is set\<close>

text \<open>
  C3. When \<^verbatim>\<open>validate\<close> returns, the \<^verbatim>\<open>authorized\<close> field of the result structure is true:
  a valid call returns with the field set, and so does any call that returns at all.
\<close>

theorem validate_sets_authorized:
  "(valid_call w token role result \<longrightarrow>
      (\<exists>w' r'. validate state token role result w = Inr (True, w')
              \<and> load_result result w' = Some r' \<and> authorized r'))
   \<and> (\<forall>b w'. validate state token role result w = Inr (b, w') \<longrightarrow>
         (\<exists>r'. load_result result w' = Some r' \<and> authorized r'))"
proof (cases "safe_call w token role result")
  case True
  then show ?thesis by (rule safe_call_run [where state = state]) auto
next
  case False
  then have "validate state token role result w = Inl Segfault"
    and "\<not> valid_call w token role result"
    using valid_call_safe by (auto simp: validate_fault)
  then show ?thesis by simp
qed

theorem validate_sets_authorized_witness:
  "valid_call example_world (Addr 1) (Addr 2) (Addr 7)
   \<and> (\<exists>w' r'. validate (Addr 5) (Addr 1) (Addr 2) (Addr 7) example_world = Inr (True, w')
              \<and> load_result (Addr 7) w' = Some r' \<and> authorized r')"
  using validate_sets_authorized [of example_world "Addr 1" "Addr 2" "Addr 7" "Addr 5"]
    example_valid_call
  by simp

subsection \<open>C4: the hooks of the callback table\<close>

text \<open>
  C4 as stated says that the callback table carries an implementation for each of the
  three hooks, startup, shutdown and validate. It does not: the initialiser sets
  \<^verbatim>\<open>.startup_cb = NULL\<close> and \<^verbatim>\<open>.shutdown_cb = NULL\<close>. The statement fails for the table
  built with any value of the magic number, here \<open>0x20250220\<close>.
\<close>

theorem callbacks_three_hooks_counterexample:
  "\<not> (startup_cb (callbacks (0x20250220 :: nat)
          :: (nat, unit, unit, (unit, unit) ValidatorValidateCB) OAuthValidatorCallbacks) \<noteq> None
      \<and> shutdown_cb (callbacks (0x20250220 :: nat)
          :: (nat, unit, unit, (unit, unit) ValidatorValidateCB) OAuthValidatorCallbacks) \<noteq> None
      \<and> validate_cb (callbacks (0x20250220 :: nat)
          :: (nat, unit, unit, (unit, unit) ValidatorValidateCB) OAuthValidatorCallbacks) \<noteq> None)"
  by (simp add: callbacks_def)

text \<open>
  C4, amended. Of the three hooks of the host's interface the module implements one:
  the callback table carries \<^verbatim>\<open>validate\<close> as its validate hook, and its startup and
  shutdown hooks are null.
\<close>

theorem callbacks_only_validate_hook:
  "startup_cb (callbacks M) = None
   \<and> shutdown_cb (callbacks M) = None
   \<and> validate_cb (callbacks M) = Some validate"
  by (simp add: callbacks_def)

subsection \<open>C5: the magic number\<close>

text \<open>
  C5. The \<^verbatim>\<open>magic\<close> field of the callback table is \<^verbatim>\<open>PG_OAUTH_VALIDATOR_MAGIC\<close>, the value
  the host compares it with. The table is a constant: in whatever state the host asks
  for it, the pointer that the entry point returns addresses a table with that magic
  number.
\<close>

theorem callbacks_magic:
  "magic (callbacks M) = M
   \<and> (\<forall>w. \<exists>p cb. PG_oauth_validator_module_init w = Inr (p, w)
              \<and> static_objs M p = Some cb \<and> magic cb = M)"
  by (simp add: callbacks_def PG_oauth_validator_module_init_def ret_def static_objs_def)

subsection \<open>C6: the entry point\<close>

text \<open>
  C6. There is one pointer \<open>p\<close> that every call of \<^verbatim>\<open>_PG_oauth_validator_module_init\<close>
  returns, in any state; the call leaves the state as it was; and \<open>p\<close> addresses the
  module's callback table.
\<close>

theorem init_returns_callbacks:
  "\<exists>p. (\<forall>w. PG_oauth_validator_module_init w = Inr (p, w))
       \<and> static_objs M p = Some (callbacks M)"
  by (simp add: PG_oauth_validator_module_init_def ret_def static_objs_def)

subsection \<open>C7: the log record\<close>

text \<open>
  C7. A valid call appends exactly one record to the log, at level \<^verbatim>\<open>LOG\<close>; its text is
  the format with the token and the role in place of the two conversions. There is no
  call that returns without having emitted its one record at that level.
\<close>

theorem validate_logs_once:
  "(valid_call w token role result \<longrightarrow>
      (\<exists>w' tok rol.
           load_str token w = Some tok \<and> load_str role w = Some rol
         \<and> validate state token role result w = Inr (True, w')
         \<and> server_log w' = server_log w @
              [(LOG, ''accept token '' @ [CHR 0x27] @ tok @ [CHR 0x27] @
                     '' for role '' @ [CHR 0x27] @ rol @ [CHR 0x27])]))
   \<and> (\<forall>b w'. validate state token role result w = Inr (b, w') \<longrightarrow>
         (\<exists>msg. server_log w' = server_log w @ [(LOG, msg)]))"
proof -
  have valid: "\<exists>w' tok rol.
           load_str token w = Some tok \<and> load_str role w = Some rol
         \<and> validate state token role result w = Inr (True, w')
         \<and> server_log w' = server_log w @
              [(LOG, ''accept token '' @ [CHR 0x27] @ tok @ [CHR 0x27] @
                     '' for role '' @ [CHR 0x27] @ rol @ [CHR 0x27])]"
    if "valid_call w token role result"
    using that by (rule valid_call_run [where state = state]) (auto simp: accept_msg_def)
  have returning: "\<exists>msg. server_log w' = server_log w @ [(LOG, msg)]"
    if "validate state token role result w = Inr (b, w')" for b w'
  proof (cases "safe_call w token role result")
    case True
    then show ?thesis by (rule safe_call_run [where state = state]) (use that in auto)
  next
    case False
    with that show ?thesis by (simp add: validate_fault)
  qed
  from valid returning show ?thesis by blast
qed

theorem validate_logs_once_witness:
  "valid_call example_world (Addr 1) (Addr 2) (Addr 7)
   \<and> (\<exists>w' tok rol.
           load_str (Addr 1) example_world = Some tok \<and> load_str (Addr 2) example_world = Some rol
         \<and> validate (Addr 5) (Addr 1) (Addr 2) (Addr 7) example_world = Inr (True, w')
         \<and> server_log w' = server_log example_world @
              [(LOG, ''accept token '' @ [CHR 0x27] @ tok @ [CHR 0x27] @
                     '' for role '' @ [CHR 0x27] @ rol @ [CHR 0x27])])"
  using validate_logs_once [of example_world "Addr 1" "Addr 2" "Addr 7" "Addr 5"]
    example_valid_call
  by simp

subsection \<open>C8: what a call leaves unchanged\<close>

text \<open>
  C8 as stated says that, the \<^verbatim>\<open>authn_id\<close> and \<^verbatim>\<open>authorized\<close> fields apart, all program
  state is unchanged by a call. The call of the example changes two more things: the
  log, which has a record it did not have, and the strings in memory, which have the
  copy among them.
\<close>

theorem validate_frame_counterexample:
  "valid_call example_world (Addr 1) (Addr 2) (Addr 7)
   \<and> validate (Addr 5) (Addr 1) (Addr 2) (Addr 7) example_world = Inr (True, example_world_after)
   \<and> server_log example_world_after \<noteq> server_log example_world
   \<and> cstrings example_world_after \<noteq> cstrings example_world"
  using example_valid_call example_run
  by (simp add: example_world_def example_world_after_def)

text \<open>
  C8, amended. \<^verbatim>\<open>validate\<close> neither reads nor writes through its \<^verbatim>\<open>state\<close> argument: with
  any other pointer for it, and any other contents of the state objects, the call does
  the same, and it leaves the state objects as they were. Of the result structure it
  writes the \<^verbatim>\<open>authn_id\<close> and \<^verbatim>\<open>authorized\<close> fields only: the rest of the structure (\<open>more\<close>)
  keeps its value. Every object that exists when \<^verbatim>\<open>validate\<close> is called is otherwise
  unchanged: every other result structure, every string in memory. Besides the two
  fields, a call adds one string at an address not in use before (the copy) and one
  record at the end of the log.
\<close>

theorem validate_frame:
  assumes "valid_call w token role result"
  shows "\<exists>w' r r'.
           validate state token role result w = Inr (True, w')
         \<and> (\<forall>state' S. validate state' token role result (w\<lparr>state_objs := S\<rparr>)
                          = Inr (True, w'\<lparr>state_objs := S\<rparr>))
         \<and> state_objs w' = state_objs w
         \<and> load_result result w = Some r \<and> load_result result w' = Some r'
         \<and> ValidatorModuleResult.more r' = ValidatorModuleResult.more r
         \<and> (\<forall>q. q \<noteq> result \<longrightarrow> load_result q w' = load_result q w)
         \<and> (\<forall>p s. load_str p w = Some s \<longrightarrow> load_str p w' = Some s)
         \<and> (\<exists>a s. map_of (cstrings w) a = None \<and> cstrings w' = (a, s) # cstrings w)
         \<and> (\<exists>msg. server_log w' = server_log w @ [(LOG, msg)])"
proof -
  from assms obtain tok rol ra r where
    tok: "load_str token w = Some tok" and rol: "load_str role w = Some rol"
    and res: "result = Addr ra" and r: "result_objs w ra = Some r"
    and run: "validate state token role result w =
           Inr (True, w\<lparr>server_log := server_log w @ [(LOG, accept_msg tok rol)],
                        cstrings := (fresh_addr (cstrings w), tok) # cstrings w,
                        result_objs := (result_objs w)(ra \<mapsto>
                           r\<lparr>authn_id := Addr (fresh_addr (cstrings w)), authorized := True\<rparr>)\<rparr>)"
    by (rule valid_call_run [where state = state])
  let ?a = "fresh_addr (cstrings w)"
  let ?r' = "r\<lparr>authn_id := Addr ?a, authorized := True\<rparr>"
  let ?w' = "w\<lparr>server_log := server_log w @ [(LOG, accept_msg tok rol)],
               cstrings := (?a, tok) # cstrings w,
               result_objs := (result_objs w)(ra \<mapsto> ?r')\<rparr>"
  have fresh: "map_of (cstrings w) ?a = None" by (rule fresh_addr_unused)
  have indep: "validate state' token role result (w\<lparr>state_objs := S\<rparr>)
                 = Inr (True, ?w'\<lparr>state_objs := S\<rparr>)" for state' S
    using validate_run [of token "w\<lparr>state_objs := S\<rparr>" tok role rol ra r state'] tok r
      elog_arg_load_str [OF rol]
    by (simp add: load_str_frame elog_arg_frame res)
  have others: "load_result q ?w' = load_result q w" if "q \<noteq> result" for q
    using that res by (cases q) simp_all
  have strs: "load_str p ?w' = Some s" if "load_str p w = Some s" for p s
  proof (cases p)
    case NULL
    with that show ?thesis by simp
  next
    case (Addr pa)
    with that fresh have "pa \<noteq> ?a" by auto
    with that Addr show ?thesis by simp
  qed
  have "validate state token role result w = Inr (True, ?w')" by (rule run)
  moreover have "state_objs ?w' = state_objs w" by simp
  moreover have "load_result result w = Some r" using r res by simp
  moreover have "load_result result ?w' = Some ?r'" using res by simp
  moreover have "ValidatorModuleResult.more ?r' = ValidatorModuleResult.more r" by simp
  moreover have "\<exists>a s. map_of (cstrings w) a = None \<and> cstrings ?w' = (a, s) # cstrings w"
    using fresh by auto
  moreover have "\<exists>msg. server_log ?w' = server_log w @ [(LOG, msg)]" by simp
  ultimately show ?thesis using indep others strs by blast
qed

theorem validate_frame_witness:
  "valid_call example_world (Addr 1) (Addr 2) (Addr 7)
   \<and> (\<exists>w' r r'.
           validate (Addr 5) (Addr 1) (Addr 2) (Addr 7) example_world = Inr (True, w')
         \<and> (\<forall>state' S. validate state' (Addr 1) (Addr 2) (Addr 7) (example_world\<lparr>state_objs := S\<rparr>)
                          = Inr (True, w'\<lparr>state_objs := S\<rparr>))
         \<and> state_objs w' = state_objs example_world
         \<and> load_result (Addr 7) example_world = Some r \<and> load_result (Addr 7) w' = Some r'
         \<and> ValidatorModuleResult.more r' = ValidatorModuleResult.more r
         \<and> (\<exists>a s. map_of (cstrings example_world) a = None
                \<and> cstrings w' = (a, s) # cstrings example_world)
         \<and> (\<exists>msg. server_log w' = server_log example_world @ [(LOG, msg)]))"
  using validate_frame [OF example_valid_call, of "Addr 5"] example_valid_call
  by blast

subsection \<open>C9: the return value and the authorization flag\<close>

text \<open>
  C9. The boolean that \<^verbatim>\<open>validate\<close> returns is the value it has stored in the
  \<^verbatim>\<open>authorized\<close> field of the result structure, and both are true: for a valid call,
  which returns, and for any call that returns.
\<close>

theorem validate_return_matches_authorized:
  "(valid_call w token role result \<longrightarrow>
      (\<exists>b w' r'. validate state token role result w = Inr (b, w')
                \<and> load_result result w' = Some r' \<and> b = authorized r' \<and> b))
   \<and> (\<forall>b w'. validate state token role result w = Inr (b, w') \<longrightarrow>
         (\<exists>r'. load_result result w' = Some r' \<and> authorized r' = b))"
proof (cases "safe_call w token role result")
  case True
  then show ?thesis by (rule safe_call_run [where state = state]) auto
next
  case False
  then have "validate state token role result w = Inl Segfault"
    and "\<not> valid_call w token role result"
    using valid_call_safe by (auto simp: validate_fault)
  then show ?thesis by simp
qed

theorem validate_return_matches_authorized_witness:
  "valid_call example_world (Addr 1) (Addr 2) (Addr 7)
   \<and> (\<exists>b w' r'. validate (Addr 5) (Addr 1) (Addr 2) (Addr 7) example_world = Inr (b, w')
                \<and> load_result (Addr 7) w' = Some r' \<and> b = authorized r' \<and> b)"
  using validate_return_matches_authorized [of example_world "Addr 1" "Addr 2" "Addr 7" "Addr 5"]
    example_valid_call
  by simp

subsection \<open>C10: when a call is safe\<close>

text \<open>
  C10 as stated says that \<^verbatim>\<open>validate\<close> is safe only if token and role are non-null
  strings, and that then no dereference in it can fault. Neither half holds. There is a
  third pointer that \<^verbatim>\<open>validate\<close> dereferences without a check, \<^verbatim>\<open>result\<close>, in
  \<^verbatim>\<open>result->authn_id = authn_id\<close>: with the token and the role of the example and a null
  \<^verbatim>\<open>result\<close> the call faults. And \<^verbatim>\<open>validate\<close> does not dereference the role, it only
  hands it to \<^verbatim>\<open>elog\<close>: with a null role the call of the example logs the role as
  \<^verbatim>\<open>(null)\<close> and returns true.
\<close>

theorem validate_precondition_counterexample:
  "load_str (Addr 1) example_world = Some ''tok''
   \<and> load_str (Addr 2) example_world = Some ''alice''
   \<and> validate (Addr 5) (Addr 1) (Addr 2) NULL example_world = Inl Segfault
   \<and> validate (Addr 5) (Addr 1) NULL (Addr 7) example_world =
       Inr (True, example_world_after_null_role)"
proof -
  have "\<not> safe_call example_world (Addr 1) (Addr 2) NULL" by (simp add: safe_call_def)
  then have "validate (Addr 5) (Addr 1) (Addr 2) NULL example_world = Inl Segfault"
    by (rule validate_fault)
  then show ?thesis using example_run_null_role by (simp add: example_world_def)
qed

text \<open>
  C10, amended. \<^verbatim>\<open>validate\<close> checks none of its pointers. It dereferences the token (for
  the duplication) and the result (for the two assignments), so a null token and a null
  result each make the call fault, and a call returns only if the token addresses a
  string and the result a result structure. The role it only passes to the log: a call
  with a null role, a token that addresses a string and a result that addresses a result
  structure returns true. Under the precondition that token and role address strings and
  result addresses a result structure, no dereference can fault: the call returns.
  Exactly the calls with a string for the token, null or a string for the role and a
  result structure for the result return; every other call faults.
\<close>

theorem validate_safe_iff:
  "validate state NULL role result w = Inl Segfault
   \<and> validate state token role NULL w = Inl Segfault
   \<and> (valid_call w token role result \<longrightarrow>
        (\<exists>w'. validate state token role result w = Inr (True, w')))
   \<and> (\<forall>b w'. validate state token role result w = Inr (b, w') \<longrightarrow>
        load_str token w \<noteq> None \<and> load_result result w \<noteq> None)
   \<and> (load_str token w \<noteq> None \<and> load_result result w \<noteq> None \<longrightarrow>
        (\<exists>w'. validate state token NULL result w = Inr (True, w')))
   \<and> ((\<exists>w'. validate state token role result w = Inr (True, w')) = safe_call w token role result)
   \<and> ((validate state token role result w = Inl Segfault) = (\<not> safe_call w token role result))"
proof -
  have a: "validate state NULL role result w = Inl Segfault"
    by (rule validate_fault) (simp add: safe_call_def)
  have c: "validate state token role NULL w = Inl Segfault"
    by (rule validate_fault) (simp add: safe_call_def)
  have d: "\<exists>w'. validate state token role result w = Inr (True, w')"
    if "safe_call w token role result" for role
    using that by (rule safe_call_run [where state = state]) simp
  have e: "validate state token role result w = Inl Segfault"
    if "\<not> safe_call w token role result"
    using that by (rule validate_fault)
  have f: "\<exists>w'. validate state token role result w = Inr (True, w')"
    if "valid_call w token role result"
    using that by (intro d valid_call_safe)
  have g: "load_str token w \<noteq> None \<and> load_result result w \<noteq> None"
    if "validate state token role result w = Inr (b, w')" for b w'
  proof (rule ccontr)
    assume "\<not> (load_str token w \<noteq> None \<and> load_result result w \<noteq> None)"
    then have "\<not> safe_call w token role result" by (auto simp: safe_call_def)
    with e that show False by simp
  qed
  have h: "\<exists>w'. validate state token NULL result w = Inr (True, w')"
    if "load_str token w \<noteq> None \<and> load_result result w \<noteq> None"
    using that by (intro d) (simp add: safe_call_def)
  have i: "(\<exists>w'. validate state token role result w = Inr (True, w')) = safe_call w token role result"
    using d [of role] e by (cases "safe_call w token role result") auto
  have j: "(validate state token role result w = Inl Segfault) = (\<not> safe_call w token role result)"
    using d [of role] e by (cases "safe_call w token role result") auto
  from a c f g h i j show ?thesis by blast
qed

theorem validate_safe_iff_witness:
  "valid_call example_world (Addr 1) (Addr 2) (Addr 7)
   \<and> (\<exists>w'. validate (Addr 5) (Addr 1) (Addr 2) (Addr 7) example_world = Inr (True, w'))
   \<and> load_str (Addr 1) example_world \<noteq> None \<and> load_result (Addr 7) example_world \<noteq> None
   \<and> (\<exists>w'. validate (Addr 5) (Addr 1) NULL (Addr 7) example_world = Inr (True, w'))"
proof -
  have t: "load_str (Addr 1) example_world \<noteq> None \<and> load_result (Addr 7) example_world \<noteq> None"
    by (simp add: example_world_def)
  show ?thesis
    using validate_safe_iff [where state = "Addr 5" and token = "Addr 1" and role = "Addr 2"
        and result = "Addr 7" and w = example_world]
      example_valid_call t
    by blast
qed

end
